theory Spec2Isabelle
  imports Complex_Main
begin

section \<open>The battery monitor of batteryMonitor.py\<close>

text \<open>
  The class \<open>BatteryMonitor\<close> polls the battery, classifies the level into one of four
  states and sends alerts. The embedding follows the methods of the class one by one.

  Conventions of the model.
  \<^item> Battery levels and timestamps are Python floats; they are modelled by \<open>real\<close>.
    The comparisons of a float with \<open>10\<close>, \<open>30\<close>, \<open>60\<close>, \<open>100\<close> and \<open>0\<close> are exact.
    The subtraction of lines 216 and 222 rounds to the nearest double. Its comparison
    with \<open>300\<close> gives the same result as the exact subtraction of the model whenever
    \<open>last_alert_time\<close> is \<open>0\<close> or at least 256: subtracting \<open>0\<close> is exact, and two
    doubles from 256 on are multiples of the spacing of the doubles around \<open>300\<close>, so
    is their difference, and rounding, which is monotone, keeps such a difference on
    its side of \<open>300\<close>; a clock below 256 gives a negative difference on both
    sides. The same holds for \<open>60\<close> when \<open>last_alert_time\<close> is \<open>0\<close> or at least 32.
    A remembered time is \<open>0\<close> or an earlier value of the clock, and the clock is the
    time since 1970, so the facts on the critical states are stated for clocks and
    remembered times above 300 (above 60 for CRITICAL_10).
  \<^item> The mutable attributes \<open>self.current_state\<close> and \<open>self.last_alert_time\<close> are
    the record \<open>monitor_state\<close>, passed in and returned. As in the source, the value
    \<open>0\<close> of \<open>last_alert_time\<close> stands for "no alert yet".
  \<^item> Everything the outside world supplies during one pass of the loop (the sensor
    result, the value of \<open>time.time()\<close>, and whether each transport call raises) is
    the record \<open>world\<close>.
  \<^item> Every call that leaves the process (a publish, a post, a log line, a call of the
    hook \<open>future_action\<close>, a sleep) is recorded as an \<open>event\<close>, in program order.
  \<^item> An exception is a branch of the model: each \<open>try\<close>/\<open>except\<close> of the source is
    a case distinction on the outcome of the guarded call.
\<close>

subsection \<open>Data\<close>

datatype severity = NORMAL | WARNING_60 | CRITICAL_30 | CRITICAL_10

record monitor_state =
  current_state :: severity
  last_alert_time :: real

text \<open>The values set in \<open>__init__\<close> (lines 52-53).\<close>

definition init_state :: monitor_state where
  "init_state = \<lparr>current_state = NORMAL, last_alert_time = 0\<rparr>"

text \<open>The dictionary returned by \<open>get_battery_status\<close>.\<close>

record battery_status =
  level :: real
  plugged :: bool

text \<open>
  What \<open>psutil.sensors_battery()\<close> does: it returns a battery tuple (percent and
  power_plugged are the fields read), returns \<open>None\<close>, or raises.
\<close>

datatype sensor_result = Battery real bool | No_battery | Sensor_raises

datatype outcome = Returns | Raises

text \<open>\<open>mqtt_client.publish\<close> returns a result with a return code \<open>rc\<close>, or raises.\<close>

datatype mqtt_outcome = Publish_rc int | Publish_raises

record world =
  sensor :: sensor_result
  now :: real
  mqtt_out :: mqtt_outcome
  webhook_out :: outcome
  telegram_out :: outcome

text \<open>
  The attributes fixed by \<open>__init__\<close> that the loop reads. \<open>mqtt_client\<close> tells
  whether \<open>self.mqtt_client\<close> holds a client object (it is \<open>None\<close> otherwise).
\<close>

record config =
  mqtt_enabled :: bool
  mqtt_client :: bool
  webhook_url :: "string option"
  check_interval :: real

datatype log_level = INFO | WARNING | ERROR | CRITICAL

text \<open>
  The three alert texts of the loop, each carrying the level it is formatted with:
  the warning (line 211), the critical one (line 217) and the very-low one (line 223).
\<close>

datatype message = Advertencia real | Bateria_critica real | Bateria_muy_baja real

datatype event =
    Log log_level string
  | Mqtt_publish battery_status
  | Webhook_post string battery_status
  | Telegram_post message
  | Future_action real
  | Sleep real

subsection \<open>The notifiers\<close>

text \<open>
  \<open>send_telegram\<close> (lines 104-111): the post is attempted; when it raises, the handler
  logs and the method returns normally. The method has no return value.
\<close>

definition send_telegram :: "outcome \<Rightarrow> message \<Rightarrow> event list" where
  "send_telegram out msg =
     (case out of
        Returns \<Rightarrow> [Telegram_post msg, Log INFO ''Telegram enviado'']
      | Raises \<Rightarrow> [Telegram_post msg, Log ERROR ''Error enviando Telegram''])"

text \<open>\<open>publish_mqtt\<close> (lines 117-124).\<close>

definition publish_mqtt :: "config \<Rightarrow> mqtt_outcome \<Rightarrow> battery_status \<Rightarrow> event list" where
  "publish_mqtt cfg out data =
     (if mqtt_enabled cfg \<and> mqtt_client cfg then
        (case out of
           Publish_rc rc \<Rightarrow>
             Mqtt_publish data # (if rc \<noteq> 0 then [Log WARNING ''MQTT publish fallo''] else [])
         | Publish_raises \<Rightarrow> [Mqtt_publish data, Log ERROR ''Error publicando MQTT''])
      else [])"

text \<open>
  \<open>notify_webhook\<close> (lines 131-136). The test \<open>if self.webhook_url\<close> is false for
  \<open>None\<close> and for the empty string.
\<close>

definition notify_webhook :: "config \<Rightarrow> outcome \<Rightarrow> battery_status \<Rightarrow> event list" where
  "notify_webhook cfg out data =
     (case webhook_url cfg of
        None \<Rightarrow> []
      | Some url \<Rightarrow>
          (if url = [] then []
           else (case out of
                   Returns \<Rightarrow> [Webhook_post url data]
                 | Raises \<Rightarrow> [Webhook_post url data, Log ERROR ''Error enviando Webhook''])))"

text \<open>\<open>future_action\<close> (lines 142-150): the body is \<open>pass\<close>; the event records the call.\<close>

definition future_action :: "real \<Rightarrow> event list" where
  "future_action lvl = [Future_action lvl]"

subsection \<open>Reading and classifying\<close>

text \<open>\<open>get_battery_status\<close> (lines 156-167).\<close>

definition get_battery_status :: "sensor_result \<Rightarrow> event list \<times> battery_status option" where
  "get_battery_status r =
     (case r of
        Battery percent power_plugged \<Rightarrow> ([], Some \<lparr>level = percent, plugged = power_plugged\<rparr>)
      | No_battery \<Rightarrow> ([], None)
      | Sensor_raises \<Rightarrow> ([Log ERROR ''Error leyendo bateria''], None))"

text \<open>\<open>evaluate_state\<close> (lines 173-181).\<close>

definition evaluate_state :: "real \<Rightarrow> severity" where
  "evaluate_state lvl =
     (if lvl < 10 then CRITICAL_10
      else if lvl < 30 then CRITICAL_30
      else if lvl < 60 then WARNING_60
      else NORMAL)"

text \<open>
  The bands as the specification words them, and the urgency order
  \<open>Normal < Warning60 < Critical30 < Critical10\<close>, to compare \<open>evaluate_state\<close> with.
\<close>

fun in_band_spec :: "severity \<Rightarrow> real \<Rightarrow> bool" where
  "in_band_spec CRITICAL_10 lvl = (lvl < 10)"
| "in_band_spec CRITICAL_30 lvl = (10 \<le> lvl \<and> lvl < 30)"
| "in_band_spec WARNING_60 lvl = (30 \<le> lvl \<and> lvl < 60)"
| "in_band_spec NORMAL lvl = (60 \<le> lvl)"

fun urgency :: "severity \<Rightarrow> nat" where
  "urgency NORMAL = 0"
| "urgency WARNING_60 = 1"
| "urgency CRITICAL_30 = 2"
| "urgency CRITICAL_10 = 3"

subsection \<open>One pass of the monitor loop\<close>

text \<open>The change of state, lines 204-207.\<close>

definition transition :: "severity \<Rightarrow> monitor_state \<Rightarrow> event list \<times> monitor_state" where
  "transition new_state s =
     (if new_state \<noteq> current_state s then
        ([Log INFO ''Cambio estado''], s\<lparr>current_state := new_state, last_alert_time := 0\<rparr>)
      else ([], s))"

text \<open>The alert policy by state, lines 209-228.\<close>

definition tier_policy ::
  "outcome \<Rightarrow> real \<Rightarrow> real \<Rightarrow> monitor_state \<Rightarrow> event list \<times> monitor_state" where
  "tier_policy tg lvl current_time s =
     (if current_state s = WARNING_60 then
        (if last_alert_time s = 0 then
           (send_telegram tg (Advertencia lvl) @ future_action lvl,
            s\<lparr>last_alert_time := current_time\<rparr>)
         else ([], s))
      else if current_state s = CRITICAL_30 then
        (if current_time - last_alert_time s > 300 then
           (send_telegram tg (Bateria_critica lvl) @ future_action lvl,
            s\<lparr>last_alert_time := current_time\<rparr>)
         else ([], s))
      else if current_state s = CRITICAL_10 then
        (if current_time - last_alert_time s > 60 then
           (send_telegram tg (Bateria_muy_baja lvl) @ future_action lvl,
            s\<lparr>last_alert_time := current_time\<rparr>)
         else ([], s))
      else if current_state s = NORMAL then ([], s\<lparr>last_alert_time := 0\<rparr>)
      else ([], s))"

text \<open>The test for a full battery, lines 230-231.\<close>

definition full_charge :: "real \<Rightarrow> event list" where
  "full_charge lvl = (if lvl = 100 then future_action lvl else [])"

text \<open>
  The end of a pass, line 233 and the handler of lines 235-237. \<open>time.sleep\<close> raises
  \<open>ValueError\<close> on a negative argument and \<open>OverflowError\<close> on one whose nanoseconds do
  not fit in 64 bits, that is above 9223372036 seconds; the handler of the loop then
  logs and sleeps 5 seconds.
\<close>

definition end_of_pass :: "config \<Rightarrow> event list" where
  "end_of_pass cfg =
     (if 0 \<le> check_interval cfg \<and> check_interval cfg \<le> 9223372036
      then [Sleep (check_interval cfg)]
      else [Log CRITICAL ''Error critico en monitor_loop'', Sleep 5])"

text \<open>
  The body of \<open>while True\<close>, lines 190-237. The notifiers and \<open>get_battery_status\<close>
  handle their own exceptions, so the only statement of the body that can reach the
  handler of the loop is the sleep.
\<close>

definition iteration :: "config \<Rightarrow> world \<Rightarrow> monitor_state \<Rightarrow> event list \<times> monitor_state" where
  "iteration cfg w s =
     (case get_battery_status (sensor w) of
        (ev0, None) \<Rightarrow> (ev0 @ end_of_pass cfg, s)
      | (ev0, Some status) \<Rightarrow>
          (let lvl = level status;
               new_state = evaluate_state lvl;
               current_time = now w;
               ev1 = [Log INFO ''Nivel''] @ publish_mqtt cfg (mqtt_out w) status
                     @ notify_webhook cfg (webhook_out w) status;
               (ev2, s1) = transition new_state s;
               (ev3, s2) = tier_policy (telegram_out w) lvl current_time s1
           in (ev0 @ ev1 @ ev2 @ ev3 @ full_charge lvl @ end_of_pass cfg, s2)))"

text \<open>
  \<open>monitor_loop\<close> (lines 187-237) never returns: the loop has no exit. The model runs
  its first passes, one for each element of the list of worlds, and returns the events
  of these passes and the state after them.
\<close>

fun monitor_loop :: "config \<Rightarrow> world list \<Rightarrow> monitor_state \<Rightarrow> event list \<times> monitor_state" where
  "monitor_loop cfg [] s = ([], s)"
| "monitor_loop cfg (w # ws) s =
     (let (ev, s1) = iteration cfg w s;
          (evs, s2) = monitor_loop cfg ws s1
      in (ev @ evs, s2))"

subsection \<open>Observations on the events\<close>

fun is_alert :: "event \<Rightarrow> bool" where
  "is_alert (Telegram_post m) = True"
| "is_alert e = False"

fun is_hook :: "event \<Rightarrow> bool" where
  "is_hook (Future_action l) = True"
| "is_hook e = False"

fun is_notifier_call :: "event \<Rightarrow> bool" where
  "is_notifier_call (Mqtt_publish d) = True"
| "is_notifier_call (Webhook_post u d) = True"
| "is_notifier_call (Telegram_post m) = True"
| "is_notifier_call e = False"

text \<open>The number of chat alerts, and of calls of the hook, among some events.\<close>

definition alerts :: "event list \<Rightarrow> nat" where
  "alerts evs = length (filter is_alert evs)"

definition hooks :: "event list \<Rightarrow> nat" where
  "hooks evs = length (filter is_hook evs)"

text \<open>The pass reads a battery level that classifies as the given state.\<close>

definition reads :: "severity \<Rightarrow> world \<Rightarrow> bool" where
  "reads sev w =
     (case sensor w of Battery percent power_plugged \<Rightarrow> evaluate_state percent = sev
      | No_battery \<Rightarrow> False | Sensor_raises \<Rightarrow> False)"


text \<open>
  The value of \<open>last_alert_time\<close> that the alert policy of a pass tests: the one left
  by lines 204-207 when the pass has read a level of state \<open>new_state\<close>.
\<close>

definition alert_memory :: "severity \<Rightarrow> monitor_state \<Rightarrow> real" where
  "alert_memory new_state s = last_alert_time (snd (transition new_state s))"

text \<open>
  Concrete inputs: the configuration of the first \<open>__main__\<close> block (MQTT enabled, no
  webhook, an interval of 30 seconds), and a pass that reads the given level at the
  given time with every transport working.
\<close>

definition main_config :: config where
  "main_config = \<lparr>mqtt_enabled = True, mqtt_client = True, webhook_url = None, check_interval = 30\<rparr>"

definition reading :: "real \<Rightarrow> real \<Rightarrow> world" where
  "reading lvl t =
     \<lparr>sensor = Battery lvl False, now = t, mqtt_out = Publish_rc 0,
      webhook_out = Returns, telegram_out = Returns\<rparr>"

text \<open>The invariant of the state: in state NORMAL no alert time is remembered.\<close>

definition normal_inv :: "monitor_state \<Rightarrow> bool" where
  "normal_inv s = (current_state s = NORMAL \<longrightarrow> last_alert_time s = 0)"



definition telegram_down :: "world \<Rightarrow> world" where
  "telegram_down w = w\<lparr>telegram_out := Raises\<rparr>"

subsection \<open>The route /battery\<close>

text \<open>
  The body of a response and the response: \<open>jsonify\<close> of the status dictionary or of
  an error dictionary, with the status code (200 when the route returns the body alone).
  \<open>Unhandled\<close> is an exception that leaves the route.
\<close>

datatype json_body = Status_json battery_status | Error_json string

datatype response = Response nat json_body | Unhandled

text \<open>
  The handler of the route, lines 252-254. Whether \<open>jsonify\<close> raises on a body is a
  parameter of the model.
\<close>

definition route_handler :: "(json_body \<Rightarrow> outcome) \<Rightarrow> event list \<times> response" where
  "route_handler jsonify =
     ([Log ERROR ''Error en endpoint /battery''],
      (case jsonify (Error_json ''Internal error'') of
         Returns \<Rightarrow> Response 500 (Error_json ''Internal error'')
       | Raises \<Rightarrow> Unhandled))"

text \<open>\<open>battery_route\<close> (lines 246-254).\<close>

definition battery_route ::
  "(json_body \<Rightarrow> outcome) \<Rightarrow> sensor_result \<Rightarrow> event list \<times> response" where
  "battery_route jsonify r =
     (case get_battery_status r of
        (ev0, Some status) \<Rightarrow>
          (case jsonify (Status_json status) of
             Returns \<Rightarrow> (ev0, Response 200 (Status_json status))
           | Raises \<Rightarrow> (ev0 @ fst (route_handler jsonify), snd (route_handler jsonify)))
      | (ev0, None) \<Rightarrow>
          (case jsonify (Error_json ''No battery detected'') of
             Returns \<Rightarrow> (ev0, Response 500 (Error_json ''No battery detected''))
           | Raises \<Rightarrow> (ev0 @ fst (route_handler jsonify), snd (route_handler jsonify))))"

text \<open>A \<open>jsonify\<close> that never raises, and one that raises on a status dictionary only.\<close>

definition jsonify_ok :: "json_body \<Rightarrow> outcome" where
  "jsonify_ok b = Returns"

definition jsonify_status_raises :: "json_body \<Rightarrow> outcome" where
  "jsonify_status_raises b = (case b of Status_json st \<Rightarrow> Raises | Error_json e \<Rightarrow> Returns)"

section \<open>Basic facts about one pass\<close>

lemma alerts_Nil [simp]: "alerts [] = 0"
  by (simp add: alerts_def)

lemma alerts_append [simp]: "alerts (xs @ ys) = alerts xs + alerts ys"
  by (simp add: alerts_def)

lemma alerts_Cons [simp]: "alerts (e # es) = (if is_alert e then 1 else 0) + alerts es"
  by (simp add: alerts_def)

lemma alerts_send_telegram [simp]: "alerts (send_telegram out msg) = 1"
  by (cases out) (simp_all add: send_telegram_def)

lemma alerts_publish_mqtt [simp]: "alerts (publish_mqtt cfg out d) = 0"
  by (cases out) (simp_all add: publish_mqtt_def)

lemma alerts_notify_webhook [simp]: "alerts (notify_webhook cfg out d) = 0"
  by (cases out) (simp_all add: notify_webhook_def split: option.splits)

lemma alerts_future_action [simp]: "alerts (future_action lvl) = 0"
  by (simp add: future_action_def)

lemma alerts_full_charge [simp]: "alerts (full_charge lvl) = 0"
  by (simp add: full_charge_def)

lemma alerts_end_of_pass [simp]: "alerts (end_of_pass cfg) = 0"
  by (simp add: end_of_pass_def)

lemma alerts_transition [simp]: "alerts (fst (transition new_state s)) = 0"
  by (simp add: transition_def)

lemma current_state_transition [simp]:
  "current_state (snd (transition new_state s)) = new_state"
  by (simp add: transition_def)

lemma alert_memory_eq:
  "alert_memory new_state s = (if new_state \<noteq> current_state s then 0 else last_alert_time s)"
  by (simp add: alert_memory_def transition_def)

text \<open>A pass that reads a level: its alerts and its final state are those of the policy.\<close>

lemma alerts_iteration:
  assumes "sensor w = Battery l p"
  shows "alerts (fst (iteration cfg w s)) =
         alerts (fst (tier_policy (telegram_out w) l (now w) (snd (transition (evaluate_state l) s))))"
  using assms by (simp add: iteration_def get_battery_status_def Let_def case_prod_beta)

lemma snd_iteration:
  assumes "sensor w = Battery l p"
  shows "snd (iteration cfg w s) =
         snd (tier_policy (telegram_out w) l (now w) (snd (transition (evaluate_state l) s)))"
  using assms by (simp add: iteration_def get_battery_status_def Let_def case_prod_beta)

lemma readsE:
  assumes "reads sev w"
  obtains l p where "sensor w = Battery l p" and "evaluate_state l = sev"
  using assms by (auto simp: reads_def split: sensor_result.splits)

lemma alerts_monitor_loop_Cons:
  "alerts (fst (monitor_loop cfg (w # ws) s)) =
   alerts (fst (iteration cfg w s)) + alerts (fst (monitor_loop cfg ws (snd (iteration cfg w s))))"
  by (simp split: prod.splits)

subsection \<open>The state CRITICAL_30\<close>

lemma iteration_CRITICAL_30:
  assumes "reads CRITICAL_30 w"
  shows "alerts (fst (iteration cfg w s)) =
           (if 300 < now w - alert_memory CRITICAL_30 s then 1 else 0)"
    and "current_state (snd (iteration cfg w s)) = CRITICAL_30"
    and "last_alert_time (snd (iteration cfg w s)) =
           (if 300 < now w - alert_memory CRITICAL_30 s then now w
            else alert_memory CRITICAL_30 s)"
proof -
  from assms obtain l p where w: "sensor w = Battery l p" and l: "evaluate_state l = CRITICAL_30"
    by (rule readsE)
  show "alerts (fst (iteration cfg w s)) =
           (if 300 < now w - alert_memory CRITICAL_30 s then 1 else 0)"
    by (simp add: alerts_iteration [OF w] l tier_policy_def alert_memory_def)
  show "current_state (snd (iteration cfg w s)) = CRITICAL_30"
    by (simp add: snd_iteration [OF w] l tier_policy_def)
  show "last_alert_time (snd (iteration cfg w s)) =
           (if 300 < now w - alert_memory CRITICAL_30 s then now w
            else alert_memory CRITICAL_30 s)"
    by (simp add: snd_iteration [OF w] l tier_policy_def alert_memory_def)
qed

lemma quiet_CRITICAL_30:
  assumes "current_state s = CRITICAL_30"
    and "\<forall>w\<in>set ws. reads CRITICAL_30 w \<and> now w - last_alert_time s \<le> 300"
  shows "alerts (fst (monitor_loop cfg ws s)) = 0"
  using assms
proof (induction ws arbitrary: s)
  case Nil
  show ?case by simp
next
  case (Cons w ws)
  let ?s1 = "snd (iteration cfg w s)"
  have r: "reads CRITICAL_30 w" and t: "now w - last_alert_time s \<le> 300"
    using Cons.prems(2) by simp_all
  have m: "alert_memory CRITICAL_30 s = last_alert_time s"
    using Cons.prems(1) by (simp add: alert_memory_eq)
  have a: "alerts (fst (iteration cfg w s)) = 0"
    using t by (simp add: iteration_CRITICAL_30(1) [OF r] m)
  have c: "current_state ?s1 = CRITICAL_30"
    by (rule iteration_CRITICAL_30(2) [OF r])
  have la: "last_alert_time ?s1 = last_alert_time s"
    using t by (simp add: iteration_CRITICAL_30(3) [OF r] m)
  have "alerts (fst (monitor_loop cfg ws ?s1)) = 0"
    using Cons.prems(2) by (intro Cons.IH [OF c]) (simp add: la)
  with a show ?case
    by (simp only: alerts_monitor_loop_Cons)
qed

lemma once_CRITICAL_30:
  assumes "current_state s = CRITICAL_30"
    and "\<forall>w\<in>set ws. reads CRITICAL_30 w \<and> now w - last_alert_time s \<le> 301"
    and "\<exists>w\<in>set ws. 300 < now w - last_alert_time s"
  shows "alerts (fst (monitor_loop cfg ws s)) = 1"
  using assms
proof (induction ws arbitrary: s)
  case Nil
  then show ?case by simp
next
  case (Cons w ws)
  let ?s1 = "snd (iteration cfg w s)"
  have r: "reads CRITICAL_30 w" and t: "now w - last_alert_time s \<le> 301"
    using Cons.prems(2) by simp_all
  have m: "alert_memory CRITICAL_30 s = last_alert_time s"
    using Cons.prems(1) by (simp add: alert_memory_eq)
  have c: "current_state ?s1 = CRITICAL_30"
    by (rule iteration_CRITICAL_30(2) [OF r])
  show ?case
  proof (cases "300 < now w - last_alert_time s")
    case True
    have a: "alerts (fst (iteration cfg w s)) = 1"
      using True by (simp add: iteration_CRITICAL_30(1) [OF r] m)
    have la: "last_alert_time ?s1 = now w"
      using True by (simp add: iteration_CRITICAL_30(3) [OF r] m)
    have "\<forall>w'\<in>set ws. reads CRITICAL_30 w' \<and> now w' - last_alert_time ?s1 \<le> 300"
      using Cons.prems(2) True by (auto simp: la)
    then have "alerts (fst (monitor_loop cfg ws ?s1)) = 0"
      by (rule quiet_CRITICAL_30 [OF c])
    with a show ?thesis
      by (simp only: alerts_monitor_loop_Cons)
  next
    case False
    have a: "alerts (fst (iteration cfg w s)) = 0"
      using False by (simp add: iteration_CRITICAL_30(1) [OF r] m)
    have la: "last_alert_time ?s1 = last_alert_time s"
      using False by (simp add: iteration_CRITICAL_30(3) [OF r] m)
    have "alerts (fst (monitor_loop cfg ws ?s1)) = 1"
      using Cons.prems(2,3) False by (intro Cons.IH [OF c]) (auto simp: la)
    with a show ?thesis
      by (simp only: alerts_monitor_loop_Cons)
  qed
qed

subsection \<open>The state CRITICAL_10\<close>

lemma iteration_CRITICAL_10:
  assumes "reads CRITICAL_10 w"
  shows "alerts (fst (iteration cfg w s)) =
           (if 60 < now w - alert_memory CRITICAL_10 s then 1 else 0)"
    and "current_state (snd (iteration cfg w s)) = CRITICAL_10"
    and "last_alert_time (snd (iteration cfg w s)) =
           (if 60 < now w - alert_memory CRITICAL_10 s then now w
            else alert_memory CRITICAL_10 s)"
proof -
  from assms obtain l p where w: "sensor w = Battery l p" and l: "evaluate_state l = CRITICAL_10"
    by (rule readsE)
  show "alerts (fst (iteration cfg w s)) =
           (if 60 < now w - alert_memory CRITICAL_10 s then 1 else 0)"
    by (simp add: alerts_iteration [OF w] l tier_policy_def alert_memory_def)
  show "current_state (snd (iteration cfg w s)) = CRITICAL_10"
    by (simp add: snd_iteration [OF w] l tier_policy_def)
  show "last_alert_time (snd (iteration cfg w s)) =
           (if 60 < now w - alert_memory CRITICAL_10 s then now w
            else alert_memory CRITICAL_10 s)"
    by (simp add: snd_iteration [OF w] l tier_policy_def alert_memory_def)
qed

lemma quiet_CRITICAL_10:
  assumes "current_state s = CRITICAL_10"
    and "\<forall>w\<in>set ws. reads CRITICAL_10 w \<and> now w - last_alert_time s \<le> 60"
  shows "alerts (fst (monitor_loop cfg ws s)) = 0"
  using assms
proof (induction ws arbitrary: s)
  case Nil
  show ?case by simp
next
  case (Cons w ws)
  let ?s1 = "snd (iteration cfg w s)"
  have r: "reads CRITICAL_10 w" and t: "now w - last_alert_time s \<le> 60"
    using Cons.prems(2) by simp_all
  have m: "alert_memory CRITICAL_10 s = last_alert_time s"
    using Cons.prems(1) by (simp add: alert_memory_eq)
  have a: "alerts (fst (iteration cfg w s)) = 0"
    using t by (simp add: iteration_CRITICAL_10(1) [OF r] m)
  have c: "current_state ?s1 = CRITICAL_10"
    by (rule iteration_CRITICAL_10(2) [OF r])
  have la: "last_alert_time ?s1 = last_alert_time s"
    using t by (simp add: iteration_CRITICAL_10(3) [OF r] m)
  have "alerts (fst (monitor_loop cfg ws ?s1)) = 0"
    using Cons.prems(2) by (intro Cons.IH [OF c]) (simp add: la)
  with a show ?case
    by (simp only: alerts_monitor_loop_Cons)
qed

lemma once_CRITICAL_10:
  assumes "current_state s = CRITICAL_10"
    and "\<forall>w\<in>set ws. reads CRITICAL_10 w \<and> now w - last_alert_time s \<le> 61"
    and "\<exists>w\<in>set ws. 60 < now w - last_alert_time s"
  shows "alerts (fst (monitor_loop cfg ws s)) = 1"
  using assms
proof (induction ws arbitrary: s)
  case Nil
  then show ?case by simp
next
  case (Cons w ws)
  let ?s1 = "snd (iteration cfg w s)"
  have r: "reads CRITICAL_10 w" and t: "now w - last_alert_time s \<le> 61"
    using Cons.prems(2) by simp_all
  have m: "alert_memory CRITICAL_10 s = last_alert_time s"
    using Cons.prems(1) by (simp add: alert_memory_eq)
  have c: "current_state ?s1 = CRITICAL_10"
    by (rule iteration_CRITICAL_10(2) [OF r])
  show ?case
  proof (cases "60 < now w - last_alert_time s")
    case True
    have a: "alerts (fst (iteration cfg w s)) = 1"
      using True by (simp add: iteration_CRITICAL_10(1) [OF r] m)
    have la: "last_alert_time ?s1 = now w"
      using True by (simp add: iteration_CRITICAL_10(3) [OF r] m)
    have "\<forall>w'\<in>set ws. reads CRITICAL_10 w' \<and> now w' - last_alert_time ?s1 \<le> 60"
      using Cons.prems(2) True by (auto simp: la)
    then have "alerts (fst (monitor_loop cfg ws ?s1)) = 0"
      by (rule quiet_CRITICAL_10 [OF c])
    with a show ?thesis
      by (simp only: alerts_monitor_loop_Cons)
  next
    case False
    have a: "alerts (fst (iteration cfg w s)) = 0"
      using False by (simp add: iteration_CRITICAL_10(1) [OF r] m)
    have la: "last_alert_time ?s1 = last_alert_time s"
      using False by (simp add: iteration_CRITICAL_10(3) [OF r] m)
    have "alerts (fst (monitor_loop cfg ws ?s1)) = 1"
      using Cons.prems(2,3) False by (intro Cons.IH [OF c]) (auto simp: la)
    with a show ?thesis
      by (simp only: alerts_monitor_loop_Cons)
  qed
qed

subsection \<open>The policy in general\<close>

lemma tier_policy_current_state [simp]:
  "current_state (snd (tier_policy tg l t s)) = current_state s"
  by (simp add: tier_policy_def)

lemma tier_policy_alerts_le: "alerts (fst (tier_policy tg l t s)) \<le> 1"
  by (simp add: tier_policy_def)

lemma tier_policy_last_alert_time:
  "last_alert_time (snd (tier_policy tg l t s)) =
     (if 0 < alerts (fst (tier_policy tg l t s)) then t
      else if current_state s = NORMAL then 0 else last_alert_time s)"
  by (cases "current_state s") (simp_all add: tier_policy_def)

lemma tier_policy_telegram_out:
  "snd (tier_policy tg l t s) = snd (tier_policy tg' l t s)"
  "alerts (fst (tier_policy tg l t s)) = alerts (fst (tier_policy tg' l t s))"
  by (simp_all add: tier_policy_def)

lemma current_state_iteration:
  assumes "sensor w = Battery l p"
  shows "current_state (snd (iteration cfg w s)) = evaluate_state l"
  by (simp add: snd_iteration [OF assms])

lemma last_alert_time_iteration:
  assumes "sensor w = Battery l p"
  shows "last_alert_time (snd (iteration cfg w s)) =
     (if 0 < alerts (fst (iteration cfg w s)) then now w
      else if evaluate_state l = NORMAL then 0 else alert_memory (evaluate_state l) s)"
  by (simp add: snd_iteration [OF assms] alerts_iteration [OF assms]
      tier_policy_last_alert_time alert_memory_def)

lemma iteration_no_status:
  assumes "sensor w = No_battery \<or> sensor w = Sensor_raises"
  shows "snd (iteration cfg w s) = s"
    and "fst (iteration cfg w s) = fst (get_battery_status (sensor w)) @ end_of_pass cfg"
  using assms by (auto simp: iteration_def get_battery_status_def)

lemma normal_inv_iteration: "normal_inv s \<Longrightarrow> normal_inv (snd (iteration cfg w s))"
proof (cases "sensor w")
  case (Battery l p)
  show ?thesis
    by (simp add: normal_inv_def snd_iteration [OF Battery] tier_policy_def)
next
  case No_battery
  then show "normal_inv s \<Longrightarrow> ?thesis"
    by (simp add: iteration_no_status(1))
next
  case Sensor_raises
  then show "normal_inv s \<Longrightarrow> ?thesis"
    by (simp add: iteration_no_status(1))
qed

lemma normal_inv_monitor_loop: "normal_inv s \<Longrightarrow> normal_inv (snd (monitor_loop cfg ws s))"
proof (induction ws arbitrary: s)
  case Nil
  then show ?case by simp
next
  case (Cons w ws)
  have "normal_inv (snd (monitor_loop cfg ws (snd (iteration cfg w s))))"
    by (rule Cons.IH [OF normal_inv_iteration [OF Cons.prems]])
  then show ?case
    by (simp add: case_prod_beta)
qed

subsection \<open>The state WARNING_60\<close>

lemma iteration_WARNING_60:
  assumes "reads WARNING_60 w"
  shows "alerts (fst (iteration cfg w s)) = (if alert_memory WARNING_60 s = 0 then 1 else 0)"
    and "current_state (snd (iteration cfg w s)) = WARNING_60"
    and "last_alert_time (snd (iteration cfg w s)) =
           (if alert_memory WARNING_60 s = 0 then now w else alert_memory WARNING_60 s)"
proof -
  from assms obtain l p where w: "sensor w = Battery l p" and l: "evaluate_state l = WARNING_60"
    by (rule readsE)
  show "alerts (fst (iteration cfg w s)) = (if alert_memory WARNING_60 s = 0 then 1 else 0)"
    by (simp add: alerts_iteration [OF w] l tier_policy_def alert_memory_def)
  show "current_state (snd (iteration cfg w s)) = WARNING_60"
    by (simp add: snd_iteration [OF w] l)
  show "last_alert_time (snd (iteration cfg w s)) =
           (if alert_memory WARNING_60 s = 0 then now w else alert_memory WARNING_60 s)"
    by (simp add: snd_iteration [OF w] l tier_policy_def alert_memory_def)
qed

lemma quiet_WARNING_60:
  assumes "current_state s = WARNING_60" and "last_alert_time s \<noteq> 0"
    and "\<forall>w\<in>set ws. reads WARNING_60 w"
  shows "alerts (fst (monitor_loop cfg ws s)) = 0"
  using assms
proof (induction ws arbitrary: s)
  case Nil
  show ?case by simp
next
  case (Cons w ws)
  let ?s1 = "snd (iteration cfg w s)"
  have r: "reads WARNING_60 w"
    using Cons.prems(3) by simp
  have m: "alert_memory WARNING_60 s = last_alert_time s"
    using Cons.prems(1) by (simp add: alert_memory_eq)
  have a: "alerts (fst (iteration cfg w s)) = 0"
    using Cons.prems(2) by (simp add: iteration_WARNING_60(1) [OF r] m)
  have c: "current_state ?s1 = WARNING_60"
    by (rule iteration_WARNING_60(2) [OF r])
  have la: "last_alert_time ?s1 \<noteq> 0"
    using Cons.prems(2) by (simp add: iteration_WARNING_60(3) [OF r] m)
  have "alerts (fst (monitor_loop cfg ws ?s1)) = 0"
    using Cons.prems(3) by (intro Cons.IH [OF c la]) simp
  with a show ?case
    by (simp only: alerts_monitor_loop_Cons)
qed

subsection \<open>Calls of the notifiers and of the hook\<close>

lemma calls_send_telegram [simp]:
  "filter is_notifier_call (send_telegram out msg) = [Telegram_post msg]"
  by (cases out) (simp_all add: send_telegram_def)






lemma hooks_Nil [simp]: "hooks [] = 0"
  by (simp add: hooks_def)

lemma hooks_append [simp]: "hooks (xs @ ys) = hooks xs + hooks ys"
  by (simp add: hooks_def)

lemma hooks_Cons [simp]: "hooks (e # es) = (if is_hook e then 1 else 0) + hooks es"
  by (simp add: hooks_def)

lemma hooks_send_telegram [simp]: "hooks (send_telegram out msg) = 0"
  by (cases out) (simp_all add: send_telegram_def)

lemma hooks_publish_mqtt [simp]: "hooks (publish_mqtt cfg out d) = 0"
  by (cases out) (simp_all add: publish_mqtt_def)

lemma hooks_notify_webhook [simp]: "hooks (notify_webhook cfg out d) = 0"
  by (cases out) (simp_all add: notify_webhook_def split: option.splits)

lemma hooks_end_of_pass [simp]: "hooks (end_of_pass cfg) = 0"
  by (simp add: end_of_pass_def)

lemma hooks_transition [simp]: "hooks (fst (transition new_state s)) = 0"
  by (simp add: transition_def)

lemma hooks_full_charge [simp]: "hooks (full_charge lvl) = (if lvl = 100 then 1 else 0)"
  by (simp add: full_charge_def future_action_def)

lemma hooks_tier_policy: "hooks (fst (tier_policy tg l t s)) = alerts (fst (tier_policy tg l t s))"
  by (simp add: tier_policy_def future_action_def)

lemma hooks_iteration:
  assumes "sensor w = Battery l p"
  shows "hooks (fst (iteration cfg w s)) =
     alerts (fst (iteration cfg w s)) + (if l = 100 then 1 else 0)"
  using assms
  by (simp add: alerts_iteration [OF assms] hooks_tier_policy [symmetric])
    (simp add: iteration_def get_battery_status_def Let_def case_prod_beta)

lemma hook_argument_tier_policy:
  "e \<in> set (fst (tier_policy tg l t s)) \<Longrightarrow> is_hook e \<Longrightarrow> e = Future_action l"
  by (auto simp: tier_policy_def future_action_def send_telegram_def
      split: if_splits outcome.splits)

lemma hook_argument_iteration:
  assumes "sensor w = Battery l p" and "e \<in> set (fst (iteration cfg w s))" and "is_hook e"
  shows "e = Future_action l"
proof -
  from assms(2) have "e \<in> set (publish_mqtt cfg (mqtt_out w) \<lparr>level = l, plugged = p\<rparr>)
      \<or> e \<in> set (notify_webhook cfg (webhook_out w) \<lparr>level = l, plugged = p\<rparr>)
      \<or> e \<in> set (fst (transition (evaluate_state l) s))
      \<or> e \<in> set (fst (tier_policy (telegram_out w) l (now w) (snd (transition (evaluate_state l) s))))
      \<or> e \<in> set (full_charge l) \<or> e \<in> set (end_of_pass cfg) \<or> e = Log INFO ''Nivel''"
    by (auto simp: iteration_def get_battery_status_def Let_def case_prod_beta assms(1))
  then show ?thesis
    using assms(3) hook_argument_tier_policy [of e "telegram_out w" l "now w"]
    by (auto simp: publish_mqtt_def notify_webhook_def transition_def full_charge_def
        future_action_def end_of_pass_def split: if_splits option.splits outcome.splits
        mqtt_outcome.splits)
qed

section \<open>Classification\<close>

text \<open>
  C2. \<open>evaluate_state\<close> is a total function of the level with strict upper bounds:
  a level below 10 is CRITICAL_10, from 10 and below 30 CRITICAL_30, from 30 and below 60
  WARNING_60, from 60 NORMAL. A state is the state of a level exactly when the level
  lies in its band, so exactly one state applies; the urgency does not increase when
  the level increases; level 30 is WARNING_60 and level 60 is NORMAL.
\<close>

theorem evaluate_state_bands:
  "(lvl < 10 \<longrightarrow> evaluate_state lvl = CRITICAL_10)
   \<and> (10 \<le> lvl \<and> lvl < 30 \<longrightarrow> evaluate_state lvl = CRITICAL_30)
   \<and> (30 \<le> lvl \<and> lvl < 60 \<longrightarrow> evaluate_state lvl = WARNING_60)
   \<and> (60 \<le> lvl \<longrightarrow> evaluate_state lvl = NORMAL)
   \<and> (in_band_spec sev lvl \<longleftrightarrow> evaluate_state lvl = sev)
   \<and> (\<exists>!sev'. in_band_spec sev' lvl)
   \<and> (lvl \<le> lvl' \<longrightarrow> urgency (evaluate_state lvl') \<le> urgency (evaluate_state lvl))
   \<and> evaluate_state 30 = WARNING_60
   \<and> evaluate_state 60 = NORMAL"
proof -
  have iff: "in_band_spec sv l \<longleftrightarrow> evaluate_state l = sv" for sv l
    by (cases sv) (auto simp: evaluate_state_def)
  have ex1: "\<exists>!sev'. in_band_spec sev' lvl"
    unfolding iff by simp
  have mono: "lvl \<le> lvl' \<longrightarrow> urgency (evaluate_state lvl') \<le> urgency (evaluate_state lvl)"
    by (simp add: evaluate_state_def)
  show ?thesis
    using iff [of sev lvl] ex1 mono by (simp add: evaluate_state_def)
qed

theorem evaluate_state_bands_witness:
  "evaluate_state (99 / 10) = CRITICAL_10
   \<and> evaluate_state 10 = CRITICAL_30
   \<and> evaluate_state (299 / 10) = CRITICAL_30
   \<and> evaluate_state 30 = WARNING_60
   \<and> evaluate_state 60 = NORMAL
   \<and> urgency (evaluate_state 30) \<le> urgency (evaluate_state (299 / 10))"
  using evaluate_state_bands [of "99 / 10" CRITICAL_10 10]
    evaluate_state_bands [of 10 CRITICAL_30 10]
    evaluate_state_bands [of "299 / 10" CRITICAL_30 30]
  by simp

section \<open>The alert policy of the critical states\<close>

text \<open>
  C1. In a pass that reads a level of state CRITICAL_30, an alert is sent exactly when
  \<open>last_alert_time\<close> is 0 (no alert yet) or the current time exceeds it by more than
  300 seconds; a pass sends at most one alert. So a pass that enters CRITICAL_30
  alerts; when the state then lasts and every later pass is at most 299 seconds after
  the entry, there is exactly one alert; when every later pass is at most 301 seconds
  after the entry and one of them is more than 300 seconds after it, there are exactly
  two. The clock is a time after 1970: it is above 300, and so is a remembered alert
  time that is not 0, before the pass and after it.
\<close>

theorem critical_30_alerts:
  assumes "reads CRITICAL_30 w"
    and "300 < now w"
    and "last_alert_time s = 0 \<or> 300 < last_alert_time s"
  shows "(0 < alerts (fst (iteration cfg w s)) \<longleftrightarrow>
            alert_memory CRITICAL_30 s = 0 \<or> 300 < now w - alert_memory CRITICAL_30 s)
    \<and> alerts (fst (iteration cfg w s)) \<le> 1
    \<and> (alert_memory CRITICAL_30 s = 0 \<longrightarrow> alerts (fst (iteration cfg w s)) = 1)
    \<and> (alert_memory CRITICAL_30 s = 0
         \<and> (\<forall>v\<in>set ws. reads CRITICAL_30 v \<and> now v - now w \<le> 299) \<longrightarrow>
         alerts (fst (monitor_loop cfg (w # ws) s)) = 1)
    \<and> (alert_memory CRITICAL_30 s = 0
         \<and> (\<forall>v\<in>set ws. reads CRITICAL_30 v \<and> now v - now w \<le> 301)
         \<and> (\<exists>v\<in>set ws. 300 < now v - now w) \<longrightarrow>
         alerts (fst (monitor_loop cfg (w # ws) s)) = 2)
    \<and> (last_alert_time (snd (iteration cfg w s)) = 0
         \<or> 300 < last_alert_time (snd (iteration cfg w s)))"
proof -
  let ?s1 = "snd (iteration cfg w s)"
  note it = iteration_CRITICAL_30 [OF assms(1), of cfg s]
  have c: "current_state ?s1 = CRITICAL_30"
    by (rule it(2))
  have mem: "alert_memory CRITICAL_30 s = 0 \<or> 300 < alert_memory CRITICAL_30 s"
    using assms(3) by (simp add: alert_memory_eq)
  have iff: "0 < alerts (fst (iteration cfg w s)) \<longleftrightarrow>
      alert_memory CRITICAL_30 s = 0 \<or> 300 < now w - alert_memory CRITICAL_30 s"
    using assms(2) by (auto simp: it(1))
  have le: "alerts (fst (iteration cfg w s)) \<le> 1"
    by (simp add: it(1))
  have entry: "alerts (fst (iteration cfg w s)) = 1" if "alert_memory CRITICAL_30 s = 0"
    using that assms(2) by (simp add: it(1))
  have la: "last_alert_time ?s1 = now w" if "alert_memory CRITICAL_30 s = 0"
    using that assms(2) by (simp add: it(3))
  have one: "alerts (fst (monitor_loop cfg (w # ws) s)) = 1"
    if "alert_memory CRITICAL_30 s = 0"
      "\<forall>v\<in>set ws. reads CRITICAL_30 v \<and> now v - now w \<le> 299"
  proof -
    have "\<forall>v\<in>set ws. reads CRITICAL_30 v \<and> now v - last_alert_time ?s1 \<le> 300"
      using that(2) by (auto simp: la [OF that(1)])
    then have "alerts (fst (monitor_loop cfg ws ?s1)) = 0"
      by (rule quiet_CRITICAL_30 [OF c])
    with entry [OF that(1)] show ?thesis
      by (simp only: alerts_monitor_loop_Cons)
  qed
  have two: "alerts (fst (monitor_loop cfg (w # ws) s)) = 2"
    if "alert_memory CRITICAL_30 s = 0"
      "\<forall>v\<in>set ws. reads CRITICAL_30 v \<and> now v - now w \<le> 301"
      "\<exists>v\<in>set ws. 300 < now v - now w"
  proof -
    have "alerts (fst (monitor_loop cfg ws ?s1)) = 1"
      using that(2,3) by (intro once_CRITICAL_30 [OF c]) (simp_all add: la [OF that(1)])
    with entry [OF that(1)] show ?thesis
      by (simp only: alerts_monitor_loop_Cons)
  qed
  have inv: "last_alert_time ?s1 = 0 \<or> 300 < last_alert_time ?s1"
    using mem assms(2) by (auto simp: it(3))
  show ?thesis
    using iff le entry one two inv by blast
qed

theorem critical_30_alerts_witness:
  "alerts (fst (iteration main_config (reading 25 1000) init_state)) = 1
   \<and> alerts (fst (monitor_loop main_config [reading 25 1000, reading 25 1030, reading 24 1299] init_state)) = 1
   \<and> alerts (fst (monitor_loop main_config [reading 25 1000, reading 25 1300, reading 24 1301] init_state)) = 2"
proof -
  have r: "reads CRITICAL_30 (reading 25 1000)"
    by (simp add: reads_def reading_def evaluate_state_def)
  have t: "300 < now (reading 25 1000)"
    by (simp add: reading_def)
  have i: "last_alert_time init_state = 0 \<or> 300 < last_alert_time init_state"
    by (simp add: init_state_def)
  have m: "alert_memory CRITICAL_30 init_state = 0"
    by (simp add: alert_memory_eq init_state_def)
  have a: "\<forall>v\<in>set [reading 25 1030, reading 24 1299].
             reads CRITICAL_30 v \<and> now v - now (reading 25 1000) \<le> 299"
    by (simp add: reads_def reading_def evaluate_state_def)
  have b: "\<forall>v\<in>set [reading 25 1300, reading 24 1301].
             reads CRITICAL_30 v \<and> now v - now (reading 25 1000) \<le> 301"
    by (simp add: reads_def reading_def evaluate_state_def)
  have c: "\<exists>v\<in>set [reading 25 1300, reading 24 1301]. 300 < now v - now (reading 25 1000)"
    by (simp add: reading_def)
  have "alerts (fst (iteration main_config (reading 25 1000) init_state)) = 1"
    using critical_30_alerts [OF r t i, of main_config "[]"] m by blast
  moreover have "alerts (fst (monitor_loop main_config
      (reading 25 1000 # [reading 25 1030, reading 24 1299]) init_state)) = 1"
    using critical_30_alerts [OF r t i, of main_config "[reading 25 1030, reading 24 1299]"]
      m a by blast
  moreover have "alerts (fst (monitor_loop main_config
      (reading 25 1000 # [reading 25 1300, reading 24 1301]) init_state)) = 2"
    using critical_30_alerts [OF r t i, of main_config "[reading 25 1300, reading 24 1301]"]
      m b c by blast
  ultimately show ?thesis
    by blast
qed

text \<open>
  C4. In a pass that reads a level of state CRITICAL_10, an alert is sent exactly when
  \<open>last_alert_time\<close> is 0 (no alert yet) or the current time exceeds it by more than
  60 seconds; a pass sends at most one alert. So a pass that enters CRITICAL_10
  alerts; when the state then lasts and every later pass is at most 59 seconds after
  the entry, there is exactly one alert; when every later pass is at most 61 seconds
  after the entry and one of them is more than 60 seconds after it, there are exactly
  two. The clock is a time after 1970: it is above 60, and so is a remembered alert
  time that is not 0, before the pass and after it.
\<close>

theorem critical_10_alerts:
  assumes "reads CRITICAL_10 w"
    and "60 < now w"
    and "last_alert_time s = 0 \<or> 60 < last_alert_time s"
  shows "(0 < alerts (fst (iteration cfg w s)) \<longleftrightarrow>
            alert_memory CRITICAL_10 s = 0 \<or> 60 < now w - alert_memory CRITICAL_10 s)
    \<and> alerts (fst (iteration cfg w s)) \<le> 1
    \<and> (alert_memory CRITICAL_10 s = 0 \<longrightarrow> alerts (fst (iteration cfg w s)) = 1)
    \<and> (alert_memory CRITICAL_10 s = 0
         \<and> (\<forall>v\<in>set ws. reads CRITICAL_10 v \<and> now v - now w \<le> 59) \<longrightarrow>
         alerts (fst (monitor_loop cfg (w # ws) s)) = 1)
    \<and> (alert_memory CRITICAL_10 s = 0
         \<and> (\<forall>v\<in>set ws. reads CRITICAL_10 v \<and> now v - now w \<le> 61)
         \<and> (\<exists>v\<in>set ws. 60 < now v - now w) \<longrightarrow>
         alerts (fst (monitor_loop cfg (w # ws) s)) = 2)
    \<and> (last_alert_time (snd (iteration cfg w s)) = 0
         \<or> 60 < last_alert_time (snd (iteration cfg w s)))"
proof -
  let ?s1 = "snd (iteration cfg w s)"
  note it = iteration_CRITICAL_10 [OF assms(1), of cfg s]
  have c: "current_state ?s1 = CRITICAL_10"
    by (rule it(2))
  have mem: "alert_memory CRITICAL_10 s = 0 \<or> 60 < alert_memory CRITICAL_10 s"
    using assms(3) by (simp add: alert_memory_eq)
  have iff: "0 < alerts (fst (iteration cfg w s)) \<longleftrightarrow>
      alert_memory CRITICAL_10 s = 0 \<or> 60 < now w - alert_memory CRITICAL_10 s"
    using assms(2) by (auto simp: it(1))
  have le: "alerts (fst (iteration cfg w s)) \<le> 1"
    by (simp add: it(1))
  have entry: "alerts (fst (iteration cfg w s)) = 1" if "alert_memory CRITICAL_10 s = 0"
    using that assms(2) by (simp add: it(1))
  have la: "last_alert_time ?s1 = now w" if "alert_memory CRITICAL_10 s = 0"
    using that assms(2) by (simp add: it(3))
  have one: "alerts (fst (monitor_loop cfg (w # ws) s)) = 1"
    if "alert_memory CRITICAL_10 s = 0"
      "\<forall>v\<in>set ws. reads CRITICAL_10 v \<and> now v - now w \<le> 59"
  proof -
    have "\<forall>v\<in>set ws. reads CRITICAL_10 v \<and> now v - last_alert_time ?s1 \<le> 60"
      using that(2) by (auto simp: la [OF that(1)])
    then have "alerts (fst (monitor_loop cfg ws ?s1)) = 0"
      by (rule quiet_CRITICAL_10 [OF c])
    with entry [OF that(1)] show ?thesis
      by (simp only: alerts_monitor_loop_Cons)
  qed
  have two: "alerts (fst (monitor_loop cfg (w # ws) s)) = 2"
    if "alert_memory CRITICAL_10 s = 0"
      "\<forall>v\<in>set ws. reads CRITICAL_10 v \<and> now v - now w \<le> 61"
      "\<exists>v\<in>set ws. 60 < now v - now w"
  proof -
    have "alerts (fst (monitor_loop cfg ws ?s1)) = 1"
      using that(2,3) by (intro once_CRITICAL_10 [OF c]) (simp_all add: la [OF that(1)])
    with entry [OF that(1)] show ?thesis
      by (simp only: alerts_monitor_loop_Cons)
  qed
  have inv: "last_alert_time ?s1 = 0 \<or> 60 < last_alert_time ?s1"
    using mem assms(2) by (auto simp: it(3))
  show ?thesis
    using iff le entry one two inv by blast
qed

theorem critical_10_alerts_witness:
  "alerts (fst (iteration main_config (reading 5 1000) init_state)) = 1
   \<and> alerts (fst (monitor_loop main_config [reading 5 1000, reading 5 1030, reading 4 1059] init_state)) = 1
   \<and> alerts (fst (monitor_loop main_config [reading 5 1000, reading 5 1060, reading 4 1061] init_state)) = 2"
proof -
  have r: "reads CRITICAL_10 (reading 5 1000)"
    by (simp add: reads_def reading_def evaluate_state_def)
  have t: "60 < now (reading 5 1000)"
    by (simp add: reading_def)
  have i: "last_alert_time init_state = 0 \<or> 60 < last_alert_time init_state"
    by (simp add: init_state_def)
  have m: "alert_memory CRITICAL_10 init_state = 0"
    by (simp add: alert_memory_eq init_state_def)
  have a: "\<forall>v\<in>set [reading 5 1030, reading 4 1059].
             reads CRITICAL_10 v \<and> now v - now (reading 5 1000) \<le> 59"
    by (simp add: reads_def reading_def evaluate_state_def)
  have b: "\<forall>v\<in>set [reading 5 1060, reading 4 1061].
             reads CRITICAL_10 v \<and> now v - now (reading 5 1000) \<le> 61"
    by (simp add: reads_def reading_def evaluate_state_def)
  have c: "\<exists>v\<in>set [reading 5 1060, reading 4 1061]. 60 < now v - now (reading 5 1000)"
    by (simp add: reading_def)
  have "alerts (fst (iteration main_config (reading 5 1000) init_state)) = 1"
    using critical_10_alerts [OF r t i, of main_config "[]"] m by blast
  moreover have "alerts (fst (monitor_loop main_config
      (reading 5 1000 # [reading 5 1030, reading 4 1059]) init_state)) = 1"
    using critical_10_alerts [OF r t i, of main_config "[reading 5 1030, reading 4 1059]"]
      m a by blast
  moreover have "alerts (fst (monitor_loop main_config
      (reading 5 1000 # [reading 5 1060, reading 4 1061]) init_state)) = 2"
    using critical_10_alerts [OF r t i, of main_config "[reading 5 1060, reading 4 1061]"]
      m b c by blast
  ultimately show ?thesis
    by blast
qed

section \<open>The warning state\<close>

text \<open>
  C3. In a pass that reads a level of state WARNING_60, an alert is sent exactly when
  \<open>last_alert_time\<close> is 0 (no alert yet), and at most one is sent. A pass that enters
  WARNING_60 from any other state sends exactly one alert, and the later passes that
  still read WARNING_60 send no further alert, whatever their times are: the entry and
  these passes together send exactly one alert. The clock of the entering pass is a
  time after 1970, a positive number.
\<close>

theorem warning_60_alerts:
  assumes "reads WARNING_60 w"
  shows "(0 < alerts (fst (iteration cfg w s)) \<longleftrightarrow> alert_memory WARNING_60 s = 0)
    \<and> alerts (fst (iteration cfg w s)) \<le> 1
    \<and> (current_state s \<noteq> WARNING_60 \<longrightarrow> alerts (fst (iteration cfg w s)) = 1)
    \<and> (current_state s \<noteq> WARNING_60 \<and> 0 < now w \<and> (\<forall>v\<in>set ws. reads WARNING_60 v) \<longrightarrow>
         alerts (fst (monitor_loop cfg (w # ws) s)) = 1)"
proof -
  let ?s1 = "snd (iteration cfg w s)"
  note it = iteration_WARNING_60 [OF assms, of cfg s]
  have entry: "alerts (fst (iteration cfg w s)) = 1" if "current_state s \<noteq> WARNING_60"
    using that by (simp add: it(1) alert_memory_eq)
  have run: "alerts (fst (monitor_loop cfg (w # ws) s)) = 1"
    if "current_state s \<noteq> WARNING_60" "0 < now w" "\<forall>v\<in>set ws. reads WARNING_60 v"
  proof -
    have la: "last_alert_time ?s1 \<noteq> 0"
      using that(1,2) by (simp add: it(3) alert_memory_eq)
    have "alerts (fst (monitor_loop cfg ws ?s1)) = 0"
      using it(2) la that(3) by (rule quiet_WARNING_60)
    with entry [OF that(1)] show ?thesis
      by (simp only: alerts_monitor_loop_Cons)
  qed
  show ?thesis
    using entry run by (simp add: it(1))
qed

theorem warning_60_alerts_witness:
  "alerts (fst (iteration main_config (reading 55 1000) init_state)) = 1
   \<and> alerts (fst (monitor_loop main_config
        (reading 55 1000 # [reading 55 1030, reading 45 5000]) init_state)) = 1"
proof -
  have r: "reads WARNING_60 (reading 55 1000)"
    by (simp add: reads_def reading_def evaluate_state_def)
  have c: "current_state init_state \<noteq> WARNING_60"
    by (simp add: init_state_def)
  have t: "0 < now (reading 55 1000)"
    by (simp add: reading_def)
  have a: "\<forall>v\<in>set [reading 55 1030, reading 45 5000]. reads WARNING_60 v"
    by (simp add: reads_def reading_def evaluate_state_def)
  show ?thesis
    using warning_60_alerts [OF r, of main_config init_state "[reading 55 1030, reading 45 5000]"]
      c t a by blast
qed

section \<open>Invariants of the state\<close>

text \<open>
  C5. When the state of the level read differs from \<open>current_state\<close>, lines 204-207
  set \<open>current_state\<close> to the new state and \<open>last_alert_time\<close> to 0. After a pass that
  has read a level, \<open>current_state\<close> is the state of that level; when the state has
  changed, the old alert time is forgotten: \<open>last_alert_time\<close> is the current time if
  the pass has alerted and 0 otherwise. Whenever \<open>current_state\<close> is NORMAL,
  \<open>last_alert_time\<close> is 0: this holds initially and is kept by every pass and every
  run of passes. Hence a pass that goes from CRITICAL_10 to WARNING_60 alerts,
  whatever the alert time remembered for CRITICAL_10.
\<close>

theorem state_change_resets:
  "(new_state \<noteq> current_state s \<longrightarrow>
      snd (transition new_state s) = \<lparr>current_state = new_state, last_alert_time = 0\<rparr>)
   \<and> (sensor w = Battery l p \<longrightarrow> current_state (snd (iteration cfg w s)) = evaluate_state l)
   \<and> (sensor w = Battery l p \<and> evaluate_state l \<noteq> current_state s \<longrightarrow>
        last_alert_time (snd (iteration cfg w s)) =
          (if 0 < alerts (fst (iteration cfg w s)) then now w else 0))
   \<and> normal_inv init_state
   \<and> (normal_inv s \<longrightarrow> normal_inv (snd (iteration cfg w s)))
   \<and> (normal_inv s \<longrightarrow> normal_inv (snd (monitor_loop cfg ws s)))
   \<and> (current_state s = CRITICAL_10 \<and> reads WARNING_60 w \<longrightarrow>
        alerts (fst (iteration cfg w s)) = 1)"
proof -
  have reset: "snd (transition new_state s) = \<lparr>current_state = new_state, last_alert_time = 0\<rparr>"
    if "new_state \<noteq> current_state s"
    using that by (simp add: transition_def)
  have cur: "current_state (snd (iteration cfg w s)) = evaluate_state l"
    if "sensor w = Battery l p"
    by (rule current_state_iteration [OF that])
  have forget: "last_alert_time (snd (iteration cfg w s)) =
      (if 0 < alerts (fst (iteration cfg w s)) then now w else 0)"
    if "sensor w = Battery l p" "evaluate_state l \<noteq> current_state s"
    using that(2) by (simp add: last_alert_time_iteration [OF that(1)] alert_memory_eq)
  have init: "normal_inv init_state"
    by (simp add: normal_inv_def init_state_def)
  have rearm: "alerts (fst (iteration cfg w s)) = 1"
    if "current_state s = CRITICAL_10" "reads WARNING_60 w"
    using that(1) by (simp add: iteration_WARNING_60(1) [OF that(2)] alert_memory_eq)
  show ?thesis
    using reset cur forget init rearm normal_inv_iteration normal_inv_monitor_loop
    by blast
qed

theorem state_change_resets_witness:
  "alerts (fst (iteration main_config (reading 5 1000) init_state)) = 1
   \<and> snd (iteration main_config (reading 5 1000) init_state) =
       \<lparr>current_state = CRITICAL_10, last_alert_time = 1000\<rparr>
   \<and> alerts (fst (iteration main_config (reading 55 1001)
        \<lparr>current_state = CRITICAL_10, last_alert_time = 1000\<rparr>)) = 1
   \<and> snd (transition WARNING_60 \<lparr>current_state = CRITICAL_10, last_alert_time = 1000\<rparr>) =
       \<lparr>current_state = WARNING_60, last_alert_time = 0\<rparr>
   \<and> normal_inv (snd (monitor_loop main_config [reading 5 1000, reading 75 1001] init_state))"
proof -
  let ?s = "\<lparr>current_state = CRITICAL_10, last_alert_time = 1000\<rparr>"
  have first: "alerts (fst (iteration main_config (reading 5 1000) init_state)) = 1
    \<and> snd (iteration main_config (reading 5 1000) init_state) = ?s"
    by (simp add: reading_def evaluate_state_def init_state_def
        iteration_def get_battery_status_def transition_def tier_policy_def main_config_def
        publish_mqtt_def notify_webhook_def full_charge_def end_of_pass_def Let_def)
  have r: "reads WARNING_60 (reading 55 1001)"
    by (simp add: reads_def reading_def evaluate_state_def)
  have c: "current_state ?s = CRITICAL_10" and n: "WARNING_60 \<noteq> current_state ?s"
    by simp_all
  note th = state_change_resets [of WARNING_60 ?s "reading 55 1001" 55 False main_config]
  have "alerts (fst (iteration main_config (reading 55 1001) ?s)) = 1"
    using th [of "[]"] c r by blast
  moreover have "snd (transition WARNING_60 ?s) = \<lparr>current_state = WARNING_60, last_alert_time = 0\<rparr>"
    using th [of "[]"] n by blast
  moreover have "normal_inv (snd (monitor_loop main_config [reading 5 1000, reading 75 1001] init_state))"
    using state_change_resets [of NORMAL init_state "reading 5 1000" 5 False main_config
        "[reading 5 1000, reading 75 1001]"]
    by blast
  ultimately show ?thesis
    using first by blast
qed

text \<open>
  C6 (as amended). \<open>last_alert_time\<close> is set to the current time exactly in the passes
  that call \<open>send_telegram\<close>, whether the post succeeds or raises: a pass that attempts
  an alert leaves \<open>last_alert_time\<close> at the current time, a pass that attempts none
  leaves it unchanged or at 0, and neither the final state nor the number of attempts
  depends on the outcome of the post.
\<close>

theorem last_alert_time_update:
  "(0 < alerts (fst (iteration cfg w s)) \<longrightarrow> last_alert_time (snd (iteration cfg w s)) = now w)
   \<and> (alerts (fst (iteration cfg w s)) = 0 \<longrightarrow>
        last_alert_time (snd (iteration cfg w s)) = last_alert_time s
        \<or> last_alert_time (snd (iteration cfg w s)) = 0)
   \<and> snd (iteration cfg (w\<lparr>telegram_out := out\<rparr>) s) = snd (iteration cfg w s)
   \<and> alerts (fst (iteration cfg (w\<lparr>telegram_out := out\<rparr>) s)) = alerts (fst (iteration cfg w s))"
proof (cases "sensor w")
  case (Battery l p)
  have w': "sensor (w\<lparr>telegram_out := out\<rparr>) = Battery l p"
    using Battery by simp
  have "last_alert_time (snd (iteration cfg w s)) = now w" if "0 < alerts (fst (iteration cfg w s))"
    using that by (simp add: last_alert_time_iteration [OF Battery])
  moreover have "last_alert_time (snd (iteration cfg w s)) = last_alert_time s
      \<or> last_alert_time (snd (iteration cfg w s)) = 0" if "alerts (fst (iteration cfg w s)) = 0"
    using that by (simp add: last_alert_time_iteration [OF Battery] alert_memory_eq)
  moreover have "snd (iteration cfg (w\<lparr>telegram_out := out\<rparr>) s) = snd (iteration cfg w s)"
    using tier_policy_telegram_out(1) [of out l "now w" _ "telegram_out w"]
    by (simp add: snd_iteration [OF Battery] snd_iteration [OF w'])
  moreover have "alerts (fst (iteration cfg (w\<lparr>telegram_out := out\<rparr>) s))
      = alerts (fst (iteration cfg w s))"
    using tier_policy_telegram_out(2) [of out l "now w" _ "telegram_out w"]
    by (simp add: alerts_iteration [OF Battery] alerts_iteration [OF w'])
  ultimately show ?thesis
    by blast
next
  case No_battery
  then show ?thesis
    by (simp add: iteration_no_status get_battery_status_def)
next
  case Sensor_raises
  then show ?thesis
    by (simp add: iteration_no_status get_battery_status_def)
qed

theorem last_alert_time_update_witness:
  "0 < alerts (fst (iteration main_config (reading 55 1000) init_state))
   \<and> last_alert_time (snd (iteration main_config (reading 55 1000) init_state)) = 1000
   \<and> last_alert_time (snd (iteration main_config (telegram_down (reading 55 1000)) init_state)) = 1000
   \<and> alerts (fst (iteration main_config (reading 75 1000) init_state)) = 0
   \<and> last_alert_time (snd (iteration main_config (reading 75 1000) init_state)) = 0"
proof -
  have a: "alerts (fst (iteration main_config (reading 55 1000) init_state)) = 1"
    by (simp add: reading_def evaluate_state_def init_state_def
        iteration_def get_battery_status_def transition_def tier_policy_def main_config_def
        publish_mqtt_def notify_webhook_def full_charge_def end_of_pass_def Let_def)
  have b: "alerts (fst (iteration main_config (reading 75 1000) init_state)) = 0"
    by (simp add: reading_def evaluate_state_def init_state_def
        iteration_def get_battery_status_def transition_def tier_policy_def main_config_def
        publish_mqtt_def notify_webhook_def full_charge_def end_of_pass_def Let_def)
  have n: "now (reading 55 1000) = 1000" and i: "last_alert_time init_state = 0"
    by (simp_all add: reading_def init_state_def)
  have "last_alert_time (snd (iteration main_config (reading 55 1000) init_state)) = 1000"
    using last_alert_time_update [of main_config "reading 55 1000" init_state Raises] a n
    by simp
  moreover have "snd (iteration main_config (telegram_down (reading 55 1000)) init_state)
      = snd (iteration main_config (reading 55 1000) init_state)"
    using last_alert_time_update [of main_config "reading 55 1000" init_state Raises]
    unfolding telegram_down_def by blast
  moreover have "last_alert_time (snd (iteration main_config (reading 75 1000) init_state)) = 0"
    using last_alert_time_update [of main_config "reading 75 1000" init_state Raises] b i
    by simp
  ultimately show ?thesis
    using a b by simp
qed

text \<open>
  C6 as stated fails: when the post to the chat raises in a pass that enters WARNING_60
  at time 1000, the failure is logged and \<open>last_alert_time\<close> is set to 1000 all the same.
\<close>

theorem last_alert_time_counterexample:
  "telegram_out (telegram_down (reading 55 1000)) = Raises
   \<and> Log ERROR ''Error enviando Telegram''
       \<in> set (fst (iteration main_config (telegram_down (reading 55 1000)) init_state))
   \<and> last_alert_time init_state = 0
   \<and> now (telegram_down (reading 55 1000)) = 1000
   \<and> last_alert_time (snd (iteration main_config (telegram_down (reading 55 1000)) init_state)) = 1000"
  by (simp add: telegram_down_def reading_def evaluate_state_def init_state_def
      iteration_def get_battery_status_def transition_def tier_policy_def main_config_def
      publish_mqtt_def notify_webhook_def full_charge_def end_of_pass_def Let_def
      send_telegram_def future_action_def)

section \<open>Failures\<close>





section \<open>The route /battery\<close>

text \<open>
  C9 (as amended). The route answers 200 with the status dictionary exactly when the
  sensor read returns a battery and the response can be built. It answers 500 with
  the error "No battery detected" when no battery is present and also when the sensor
  read raises, since \<open>get_battery_status\<close> handles the exception and returns \<open>None\<close>.
  It answers 500 with the error "Internal error" when building the response raises;
  when \<open>jsonify\<close> does not raise, no sensor result leads to that answer.
\<close>

theorem battery_route_responses:
  "(snd (battery_route jsonify r) = Response 200 (Status_json st) \<longleftrightarrow>
      r = Battery (level st) (plugged st) \<and> jsonify (Status_json st) = Returns)
   \<and> (jsonify (Error_json ''No battery detected'') = Returns \<longrightarrow>
        snd (battery_route jsonify No_battery) = Response 500 (Error_json ''No battery detected'')
        \<and> snd (battery_route jsonify Sensor_raises) = Response 500 (Error_json ''No battery detected''))
   \<and> (jsonify (Status_json \<lparr>level = l, plugged = p\<rparr>) = Raises
        \<and> jsonify (Error_json ''Internal error'') = Returns \<longrightarrow>
        snd (battery_route jsonify (Battery l p)) = Response 500 (Error_json ''Internal error''))
   \<and> ((\<forall>b. jsonify b = Returns) \<longrightarrow>
        snd (battery_route jsonify r) \<noteq> Response 500 (Error_json ''Internal error''))"
proof -
  have ok: "(snd (battery_route jsonify r) = Response 200 (Status_json st)) =
      (r = Battery (level st) (plugged st) \<and> jsonify (Status_json st) = Returns)"
  proof (cases r)
    case (Battery l' p')
    show ?thesis
    proof (cases "jsonify (Status_json \<lparr>level = l', plugged = p'\<rparr>)")
      case Returns
      then show ?thesis
        using Battery by (cases st) (auto simp: battery_route_def get_battery_status_def)
    next
      case Raises
      then show ?thesis
        using Battery
        by (cases st; cases p'; cases "jsonify (Error_json ''Internal error'')")
          (auto simp: battery_route_def get_battery_status_def route_handler_def)
    qed
  next
    case No_battery
    then show ?thesis
      by (cases "jsonify (Error_json ''No battery detected'')";
          cases "jsonify (Error_json ''Internal error'')")
        (simp_all add: battery_route_def get_battery_status_def route_handler_def)
  next
    case Sensor_raises
    then show ?thesis
      by (cases "jsonify (Error_json ''No battery detected'')";
          cases "jsonify (Error_json ''Internal error'')")
        (simp_all add: battery_route_def get_battery_status_def route_handler_def)
  qed
  have none: "snd (battery_route jsonify No_battery) = Response 500 (Error_json ''No battery detected'')
      \<and> snd (battery_route jsonify Sensor_raises) = Response 500 (Error_json ''No battery detected'')"
    if "jsonify (Error_json ''No battery detected'') = Returns"
    using that by (simp add: battery_route_def get_battery_status_def)
  have internal: "snd (battery_route jsonify (Battery l p)) = Response 500 (Error_json ''Internal error'')"
    if "jsonify (Status_json \<lparr>level = l, plugged = p\<rparr>) = Raises"
      "jsonify (Error_json ''Internal error'') = Returns"
    using that by (simp add: battery_route_def get_battery_status_def route_handler_def)
  have never: "snd (battery_route jsonify r) \<noteq> Response 500 (Error_json ''Internal error'')"
    if "\<forall>b. jsonify b = Returns"
    using that by (cases r) (simp_all add: battery_route_def get_battery_status_def)
  show ?thesis
    using ok none internal never by blast
qed

theorem battery_route_responses_witness:
  "snd (battery_route jsonify_ok (Battery 80 True)) = Response 200 (Status_json \<lparr>level = 80, plugged = True\<rparr>)
   \<and> snd (battery_route jsonify_ok No_battery) = Response 500 (Error_json ''No battery detected'')
   \<and> snd (battery_route jsonify_ok Sensor_raises) = Response 500 (Error_json ''No battery detected'')
   \<and> snd (battery_route jsonify_status_raises (Battery 80 True)) = Response 500 (Error_json ''Internal error'')"
proof -
  have a: "\<forall>b. jsonify_ok b = Returns"
    by (simp add: jsonify_ok_def)
  have b: "jsonify_status_raises (Status_json \<lparr>level = 80, plugged = True\<rparr>) = Raises
      \<and> jsonify_status_raises (Error_json ''Internal error'') = Returns"
    by (simp add: jsonify_status_raises_def)
  have c: "Battery 80 True = Battery (level \<lparr>level = 80, plugged = True\<rparr>) (plugged \<lparr>level = 80, plugged = True\<rparr>)"
    by simp
  have "snd (battery_route jsonify_ok (Battery 80 True))
      = Response 200 (Status_json \<lparr>level = 80, plugged = True\<rparr>)"
    using battery_route_responses [of jsonify_ok "Battery 80 True" "\<lparr>level = 80, plugged = True\<rparr>" 80 True]
      a c by blast
  moreover have "snd (battery_route jsonify_ok No_battery) = Response 500 (Error_json ''No battery detected'')
      \<and> snd (battery_route jsonify_ok Sensor_raises) = Response 500 (Error_json ''No battery detected'')"
    using battery_route_responses [of jsonify_ok "Battery 80 True" "\<lparr>level = 80, plugged = True\<rparr>" 80 True]
      a by blast
  moreover have "snd (battery_route jsonify_status_raises (Battery 80 True))
      = Response 500 (Error_json ''Internal error'')"
    using battery_route_responses [of jsonify_status_raises "Battery 80 True"
        "\<lparr>level = 80, plugged = True\<rparr>" 80 True] b by blast
  ultimately show ?thesis
    by blast
qed

text \<open>
  C9 as stated fails: an exception raised by the sensor read gives the answer
  "No battery detected", not "Internal error".
\<close>

theorem battery_route_counterexample:
  "snd (battery_route jsonify_ok Sensor_raises) = Response 500 (Error_json ''No battery detected'')
   \<and> snd (battery_route jsonify_ok Sensor_raises) \<noteq> Response 500 (Error_json ''Internal error'')"
  by (simp add: battery_route_def get_battery_status_def jsonify_ok_def)

section \<open>The hook\<close>

text \<open>
  C10. The hook \<open>future_action\<close> is called once, with the level read, in every pass
  that sends an alert (for WARNING_60, CRITICAL_30 or CRITICAL_10), and once more when
  the level is exactly 100, whatever the state and the alert times: the number of calls
  in a pass is the number of alerts plus one if the level is 100, every call has the
  level read as its argument, and a pass at level 100 calls the hook. The same count
  holds for the alert policy followed by the test for 100 from any state, so a level
  of 100 together with an alert gives two calls.
\<close>

theorem hook_calls:
  "hooks (fst (tier_policy tg lvl t s1) @ full_charge lvl)
     = alerts (fst (tier_policy tg lvl t s1)) + (if lvl = 100 then 1 else 0)
   \<and> (sensor w = Battery lvl p \<longrightarrow>
        hooks (fst (iteration cfg w s))
          = alerts (fst (iteration cfg w s)) + (if lvl = 100 then 1 else 0))
   \<and> (sensor w = Battery lvl p \<longrightarrow>
        (\<forall>e\<in>set (fst (iteration cfg w s)). is_hook e \<longrightarrow> e = Future_action lvl))
   \<and> (sensor w = Battery 100 p \<longrightarrow> Future_action 100 \<in> set (fst (iteration cfg w s)))"
proof -
  have pol: "hooks (fst (tier_policy tg lvl t s1) @ full_charge lvl)
     = alerts (fst (tier_policy tg lvl t s1)) + (if lvl = 100 then 1 else 0)"
    by (simp add: hooks_tier_policy)
  have full: "Future_action 100 \<in> set (fst (iteration cfg w s))" if "sensor w = Battery 100 p"
    using that
    by (simp add: iteration_def get_battery_status_def Let_def case_prod_beta
        full_charge_def future_action_def)
  show ?thesis
    using pol full hooks_iteration [of w lvl p cfg s] hook_argument_iteration [of w lvl p _ cfg s]
    by blast
qed

theorem hook_calls_witness:
  "hooks (fst (iteration main_config (reading 55 1000) init_state)) = 1
   \<and> hooks (fst (iteration main_config (reading 100 1000) init_state)) = 1
   \<and> Future_action 100 \<in> set (fst (iteration main_config (reading 100 1000) init_state))
   \<and> hooks (fst (tier_policy Returns 100 1000 \<lparr>current_state = WARNING_60, last_alert_time = 0\<rparr>)
        @ full_charge 100) = 2"
proof -
  have r: "sensor (reading 55 1000) = Battery 55 False"
    and r': "sensor (reading 100 1000) = Battery 100 False"
    by (simp_all add: reading_def)
  have a: "alerts (fst (iteration main_config (reading 55 1000) init_state)) = 1"
    unfolding alerts_iteration [OF r]
    by (simp add: init_state_def evaluate_state_def transition_def tier_policy_def
        future_action_def reading_def)
  have b: "alerts (fst (iteration main_config (reading 100 1000) init_state)) = 0"
    unfolding alerts_iteration [OF r']
    by (simp add: init_state_def evaluate_state_def transition_def tier_policy_def
        future_action_def reading_def)
  have c: "alerts (fst (tier_policy Returns 100 1000
      \<lparr>current_state = WARNING_60, last_alert_time = 0\<rparr>)) = 1"
    by (simp add: tier_policy_def future_action_def)
  have "hooks (fst (iteration main_config (reading 55 1000) init_state)) = 1"
    using hook_calls [where w = "reading 55 1000" and lvl = 55 and p = False
        and cfg = main_config and s = init_state] r a by simp
  moreover have "hooks (fst (iteration main_config (reading 100 1000) init_state)) = 1
      \<and> Future_action 100 \<in> set (fst (iteration main_config (reading 100 1000) init_state))"
    using hook_calls [where w = "reading 100 1000" and lvl = 100 and p = False
        and cfg = main_config and s = init_state] r' b by simp
  moreover have "hooks (fst (tier_policy Returns 100 1000
      \<lparr>current_state = WARNING_60, last_alert_time = 0\<rparr>) @ full_charge 100) = 2"
    using hook_calls [where tg = Returns and lvl = 100 and t = 1000
        and ?s1.0 = "\<lparr>current_state = WARNING_60, last_alert_time = 0\<rparr>"] c
    by (simp del: hooks_append)
  ultimately show ?thesis
    by blast
qed

end
